theory Spec2Isabelle
  imports Main "HOL-Library.AList"
begin

section \<open>Values, dictionaries and errors\<close>

text \<open>
  The strategies of \<^verbatim>\<open>fhirclient/auth.py\<close> keep Python values in their fields: \<^verbatim>\<open>None\<close>,
  strings, and whatever the token endpoint's JSON response holds. The model has \<^verbatim>\<open>None\<close>,
  \<^verbatim>\<open>str\<close> and \<^verbatim>\<open>int\<close>; \<open>truthy\<close> is Python's truth value and \<open>py_or\<close> is
  Python's \<^verbatim>\<open>a or b\<close>, which yields \<^verbatim>\<open>a\<close> itself when it is truthy and \<^verbatim>\<open>b\<close> otherwise.
\<close>

datatype pyval = PyNone | PyStr string | PyInt int

fun truthy :: "pyval \<Rightarrow> bool" where
  "truthy PyNone = False"
| "truthy (PyStr x) = (x \<noteq> [])"
| "truthy (PyInt n) = (n \<noteq> 0)"

definition py_or :: "pyval \<Rightarrow> pyval \<Rightarrow> pyval" where
  "py_or a b = (if truthy a then a else b)"

text \<open>
  A \<^verbatim>\<open>dict\<close> is an association list in insertion order. \<^verbatim>\<open>d.get(k)\<close> is \<open>dict_get\<close>
  (\<^verbatim>\<open>None\<close> for a missing key), \<^verbatim>\<open>k in d\<close> is \<open>dict_has\<close>, \<^verbatim>\<open>d[k] = v\<close> is
  \<open>AList.update\<close>, \<^verbatim>\<open>del d[k]\<close> on a present key is \<open>AList.delete\<close>, \<^verbatim>\<open>d.update(e)\<close> is
  \<open>dict_update\<close> and \<^verbatim>\<open>dict(pairs)\<close> is \<open>dict_of\<close> (a later pair replaces an earlier
  one with the same key).
\<close>

type_synonym 'v dict = "(string \<times> 'v) list"

definition dict_get :: "pyval dict \<Rightarrow> string \<Rightarrow> pyval" where
  "dict_get d k = (case map_of d k of None \<Rightarrow> PyNone | Some v \<Rightarrow> v)"

definition dict_has :: "'v dict \<Rightarrow> string \<Rightarrow> bool" where
  "dict_has d k = (map_of d k \<noteq> None)"

definition dict_update :: "'v dict \<Rightarrow> 'v dict \<Rightarrow> 'v dict" where
  "dict_update d e = fold (\<lambda>(k, v). AList.update k v) e d"

definition dict_of :: "(string \<times> 'v) list \<Rightarrow> 'v dict" where
  "dict_of pairs = dict_update [] pairs"

text \<open>
  Every \<^verbatim>\<open>raise Exception(...)\<close> of the source is a constructor that holds the values
  formatted into its message:
  \<^item> \<open>NoCallbackURL\<close>: "No callback URL received";
  \<^item> \<open>InvalidCallbackURL e\<close>: "Invalid callback URL: \{e\}";
  \<^item> \<open>OAuthError msg\<close>: the text of \<^verbatim>\<open>extract_oauth_error\<close>;
  \<^item> \<open>InvalidState have want\<close>: "Invalid state, will not use this code. Have: \{have\}, want: \{want\}";
  \<^item> \<open>NoCode keys\<close>: "Did not receive a code, only have: \{keys\}";
  \<^item> \<open>NoServer\<close>: "I need a server to request an access token";
  \<^item> \<open>NoAccessToken\<close>: "No access token received";
  \<^item> \<open>CannotSign\<close>: "Cannot sign headers since I have no access token";
  \<^item> \<open>NoRefreshToken\<close>: "Cannot produce reauthorize parameters without refresh token";
  \<^item> \<open>CannotHandleCallback\<close>: "\{self\} cannot handle callback URL" of the base class.

  \<open>AssertionError\<close> is a failed \<^verbatim>\<open>assert\<close> (assertions enabled), \<open>AttributeError\<close> a method
  call on \<^verbatim>\<open>None\<close>, and \<open>Raised name\<close> an exception that the URL library or the server
  collaborator raises.
\<close>

datatype error =
    AssertionError
  | AttributeError
  | Raised string
  | NoCallbackURL
  | InvalidCallbackURL error
  | OAuthError string
  | InvalidState pyval pyval
  | NoCode "string list"
  | NoServer
  | NoAccessToken
  | CannotSign
  | NoRefreshToken
  | CannotHandleCallback

section \<open>Collaborators\<close>

text \<open>
  The server collaborator is an object that the strategy calls: \<^verbatim>\<open>should_save_state()\<close>
  and \<^verbatim>\<open>post_as_form(uri, params)\<close>. The model keeps what it has received: the number of
  \<^verbatim>\<open>should_save_state\<close> calls and the arguments of each \<^verbatim>\<open>post_as_form\<close> call, oldest
  first. What \<^verbatim>\<open>post_as_form\<close> answers is a parameter of the operations that call it:
  a function from the call's arguments to the response mapping, or to the exception raised.
\<close>

record server =
  saves :: nat
  posts :: "(pyval \<times> pyval dict) list"

definition should_save_state :: "server \<Rightarrow> server" where
  "should_save_state sv = sv\<lparr>saves := Suc (saves sv)\<rparr>"

definition log_post :: "pyval \<Rightarrow> pyval dict \<Rightarrow> server \<Rightarrow> server" where
  "log_post uri params sv = sv\<lparr>posts := posts sv @ [(uri, params)]\<rparr>"

type_synonym post_as_form = "pyval \<Rightarrow> pyval dict \<Rightarrow> error + pyval dict"

text \<open>
  The URL functions come from Python's standard library (\<^verbatim>\<open>urlparse\<close>, \<^verbatim>\<open>urllib\<close>), which
  is not part of the repository: they are parameters. \<^verbatim>\<open>urlsplit\<close> yields five components,
  each a \<^verbatim>\<open>str\<close> or a \<^verbatim>\<open>bytes\<close>; the source reads and replaces component 3, the query.
  A value of the merged query parameters is either one value of \<^verbatim>\<open>_authorize_params\<close> or
  a list of strings of \<^verbatim>\<open>parse_qs\<close>.
\<close>

datatype urlpart = UStr string | UBytes string

fun part_len :: "urlpart \<Rightarrow> nat" where
  "part_len (UStr x) = length x"
| "part_len (UBytes x) = length x"

record split_result =
  scheme :: urlpart
  netloc :: urlpart
  path :: urlpart
  query :: urlpart
  fragment :: urlpart

datatype qvalue = One pyval | Many "string list"

record urllib =
  urlsplit :: "pyval \<Rightarrow> error + split_result"
  parse_qs :: "urlpart \<Rightarrow> error + qvalue dict"
  parse_qsl :: "urlpart \<Rightarrow> error + (string \<times> string) list"
  urlencode :: "qvalue dict \<Rightarrow> error + string"
  urlunsplit :: "split_result \<Rightarrow> error + string"

section \<open>The base strategy: class FHIRAuth\<close>

record FHIRAuth =
  server :: "server option"
  app_id :: pyval

definition FHIRAuth_ready :: "'a FHIRAuth_scheme \<Rightarrow> bool" where
  "FHIRAuth_ready s = True"

definition FHIRAuth_reset :: "'a FHIRAuth_scheme \<Rightarrow> 'a FHIRAuth_scheme" where
  "FHIRAuth_reset s = s"

definition FHIRAuth_can_sign_headers :: "'a FHIRAuth_scheme \<Rightarrow> bool" where
  "FHIRAuth_can_sign_headers s = False"

definition FHIRAuth_authorize_uri :: "'a FHIRAuth_scheme \<Rightarrow> pyval" where
  "FHIRAuth_authorize_uri s = PyNone"

definition FHIRAuth_handle_callback :: "pyval \<Rightarrow> 'a FHIRAuth_scheme \<Rightarrow> error + pyval dict" where
  "FHIRAuth_handle_callback url s = Inl CannotHandleCallback"

definition FHIRAuth_reauthorize :: "'a FHIRAuth_scheme \<Rightarrow> pyval dict option" where
  "FHIRAuth_reauthorize s = None"

definition FHIRAuth_state :: "'a FHIRAuth_scheme \<Rightarrow> pyval dict" where
  "FHIRAuth_state s = [(''app_id'', app_id s)]"

text \<open>
  \<^verbatim>\<open>from_state\<close> starts with \<^verbatim>\<open>assert state\<close>: an empty mapping is falsy and the
  assertion fails before any field is written.
\<close>

definition FHIRAuth_from_state :: "pyval dict \<Rightarrow> 'a FHIRAuth_scheme \<Rightarrow> error + 'a FHIRAuth_scheme" where
  "FHIRAuth_from_state st s =
     (if st = [] then Inl AssertionError
      else Inr (s\<lparr>app_id := py_or (dict_get st ''app_id'') (app_id s)\<rparr>))"

section \<open>The OAuth2 strategy: class FHIROAuth2Auth\<close>

text \<open>
  The fields \<^verbatim>\<open>_registration_uri\<close>, \<^verbatim>\<open>_authorize_uri\<close>, \<^verbatim>\<open>_redirect_uri\<close> and
  \<^verbatim>\<open>_token_uri\<close> are \<open>p_registration_uri\<close> and so on here, and the methods whose names
  start with an underscore get the same prefix.
\<close>

record FHIROAuth2Auth = FHIRAuth +
  scope :: pyval
  p_registration_uri :: pyval
  p_authorize_uri :: pyval
  p_redirect_uri :: pyval
  p_token_uri :: pyval
  auth_state :: pyval
  access_token :: pyval
  refresh_token :: pyval

definition ready :: "FHIROAuth2Auth \<Rightarrow> bool" where
  "ready s = (if truthy (access_token s) then True else False)"

definition reset :: "FHIROAuth2Auth \<Rightarrow> FHIROAuth2Auth" where
  "reset s = (FHIRAuth_reset s)\<lparr>access_token := PyNone, auth_state := PyNone\<rparr>"

definition can_sign_headers :: "FHIROAuth2Auth \<Rightarrow> bool" where
  "can_sign_headers s = (if access_token s \<noteq> PyNone then True else False)"

subsection \<open>State export and import\<close>

definition state :: "FHIROAuth2Auth \<Rightarrow> pyval dict" where
  "state s =
     (let d0 = FHIRAuth_state s;
          d1 = AList.update ''scope'' (scope s) d0;
          d2 = AList.update ''registration_uri'' (p_registration_uri s) d1;
          d3 = AList.update ''authorize_uri'' (p_authorize_uri s) d2;
          d4 = AList.update ''redirect_uri'' (p_redirect_uri s) d3;
          d5 = AList.update ''token_uri'' (p_token_uri s) d4;
          d6 = (if auth_state s \<noteq> PyNone then AList.update ''auth_state'' (auth_state s) d5 else d5);
          d7 = (if access_token s \<noteq> PyNone then AList.update ''access_token'' (access_token s) d6 else d6);
          d8 = (if refresh_token s \<noteq> PyNone then AList.update ''refresh_token'' (refresh_token s) d7 else d7)
      in d8)"

definition from_state :: "pyval dict \<Rightarrow> FHIROAuth2Auth \<Rightarrow> error + FHIROAuth2Auth" where
  "from_state st s =
     (case FHIRAuth_from_state st s of
        Inl e \<Rightarrow> Inl e
      | Inr s0 \<Rightarrow>
          Inr (s0\<lparr>scope := py_or (dict_get st ''scope'') (scope s0),
                  p_registration_uri := py_or (dict_get st ''registration_uri'') (p_registration_uri s0),
                  p_authorize_uri := py_or (dict_get st ''authorize_uri'') (p_authorize_uri s0),
                  p_redirect_uri := py_or (dict_get st ''redirect_uri'') (p_redirect_uri s0),
                  p_token_uri := py_or (dict_get st ''token_uri'') (p_token_uri s0),
                  auth_state := py_or (dict_get st ''auth_state'') (auth_state s0),
                  access_token := py_or (dict_get st ''access_token'') (access_token s0),
                  refresh_token := py_or (dict_get st ''refresh_token'') (refresh_token s0)\<rparr>))"

text \<open>
  The constructor: the subclass sets its fields to \<^verbatim>\<open>None\<close>, then the base constructor
  asserts the server, stores it, sets \<^verbatim>\<open>app_id\<close> to \<^verbatim>\<open>None\<close> and imports the state if
  one is given (the call dispatches to the subclass's \<^verbatim>\<open>from_state\<close>).
\<close>

definition init :: "server option \<Rightarrow> pyval dict option \<Rightarrow> error + FHIROAuth2Auth" where
  "init sv st =
     (if sv = None then Inl AssertionError
      else
        let s = \<lparr>server = sv, app_id = PyNone, scope = PyNone, p_registration_uri = PyNone,
                 p_authorize_uri = PyNone, p_redirect_uri = PyNone, p_token_uri = PyNone,
                 auth_state = PyNone, access_token = PyNone, refresh_token = PyNone\<rparr>
        in (case st of None \<Rightarrow> Inr s | Some m \<Rightarrow> from_state m s))"

subsection \<open>The authorize URL\<close>

text \<open>
  \<^verbatim>\<open>_authorize_params\<close> mints the nonce when none is pending. \<open>uuid4\<close> is the text of
  the random \<^verbatim>\<open>uuid.uuid4()\<close> drawn at this call, of which the first eight characters
  are kept. The nonce is assigned before the hook is called, so a missing server (the call
  \<^verbatim>\<open>self.server.should_save_state()\<close> on \<^verbatim>\<open>None\<close>) fails with the nonce already stored.
\<close>

definition p_authorize_params :: "string \<Rightarrow> FHIROAuth2Auth \<Rightarrow> (error + pyval dict) \<times> FHIROAuth2Auth" where
  "p_authorize_params uuid4 s =
     (let params = (\<lambda>t. [(''client_id'', app_id t),
                           (''response_type'', PyStr ''code''),
                           (''scope'', scope t),
                           (''state'', auth_state t),
                           (''redirect_uri'', p_redirect_uri t)])
      in if auth_state s = PyNone then
           (let s1 = s\<lparr>auth_state := PyStr (take 8 uuid4)\<rparr>
            in case server s1 of
                 None \<Rightarrow> (Inl AttributeError, s1)
               | Some sv \<Rightarrow>
                   (let s2 = s1\<lparr>server := Some (should_save_state sv)\<rparr>
                    in (Inr (params s2), s2)))
         else (Inr (params s), s))"

definition merge_query :: "urllib \<Rightarrow> split_result \<Rightarrow> pyval dict \<Rightarrow> error + qvalue dict" where
  "merge_query lib parts auth_params =
     (if part_len (query parts) > 0 then
        (case parse_qs lib (query parts) of
           Inl e \<Rightarrow> Inl e
         | Inr args \<Rightarrow> Inr (dict_update args (map (\<lambda>(k, v). (k, One v)) auth_params)))
      else Inr (map (\<lambda>(k, v). (k, One v)) auth_params))"

definition authorize_uri :: "urllib \<Rightarrow> string \<Rightarrow> FHIROAuth2Auth \<Rightarrow> (error + string) \<times> FHIROAuth2Auth" where
  "authorize_uri lib uuid4 s =
     (case p_authorize_params uuid4 s of
        (Inl e, s1) \<Rightarrow> (Inl e, s1)
      | (Inr auth_params, s1) \<Rightarrow>
          (case urlsplit lib (p_authorize_uri s1) of
             Inl e \<Rightarrow> (Inl e, s1)
           | Inr parts \<Rightarrow>
               (case merge_query lib parts auth_params of
                  Inl e \<Rightarrow> (Inl e, s1)
                | Inr merged \<Rightarrow>
                    (case urlencode lib merged of
                       Inl e \<Rightarrow> (Inl e, s1)
                     | Inr q \<Rightarrow> (urlunsplit lib (parts\<lparr>query := UStr q\<rparr>), s1)))))"

subsection \<open>The callback and the token exchange\<close>

definition extract_oauth_error :: "string dict \<Rightarrow> string option" where
  "extract_oauth_error args =
     (case map_of args ''error_description'' of
        Some d \<Rightarrow> Some (map (\<lambda>c. if c = CHR ''+'' then CHR '' '' else c) d)
      | None \<Rightarrow>
          (case map_of args ''error'' of
             Some err_code \<Rightarrow>
               (if ''invalid_request'' = err_code then
                  Some ''The request is missing a required parameter, includes an invalid parameter value, includes a parameter more than once, or is otherwise malformed.''
                else if ''unauthorized_client'' = err_code then
                  Some ''The client is not authorized to request an access token using this method.''
                else if ''access_denied'' = err_code then
                  Some ''The resource owner or authorization server denied the request.''
                else if ''unsupported_response_type'' = err_code then
                  Some ''The authorization server does not support obtaining an access token using this method.''
                else if ''invalid_scope'' = err_code then
                  Some ''The requested scope is invalid, unknown, or malformed.''
                else if ''server_error'' = err_code then
                  Some ''The authorization server encountered an unexpected condition that prevented it from fulfilling the request.''
                else if ''temporarily_unavailable'' = err_code then
                  Some ''The authorization server is currently unable to handle the request due to a temporary overloading or maintenance of the server.''
                else Some (''Authorization error: '' @ err_code @ ''.''))
           | None \<Rightarrow> None))"

definition p_code_exchange_params :: "string \<Rightarrow> FHIROAuth2Auth \<Rightarrow> pyval dict" where
  "p_code_exchange_params code s =
     [(''client_id'', app_id s),
      (''code'', PyStr code),
      (''grant_type'', PyStr ''authorization_code''),
      (''redirect_uri'', p_redirect_uri s),
      (''state'', auth_state s)]"

text \<open>
  \<^verbatim>\<open>_request_access_token\<close> writes \<^verbatim>\<open>self.access_token\<close> and \<^verbatim>\<open>self.refresh_token\<close> with
  the result of \<^verbatim>\<open>ret_params.get(...)\<close> and tests the field afterwards. An exception of
  the collaborator propagates with no field written.
\<close>

definition p_request_access_token ::
  "post_as_form \<Rightarrow> pyval dict \<Rightarrow> FHIROAuth2Auth \<Rightarrow> (error + pyval dict) \<times> FHIROAuth2Auth" where
  "p_request_access_token post params s =
     (case server s of
        None \<Rightarrow> (Inl NoServer, s)
      | Some sv \<Rightarrow>
          (let s1 = s\<lparr>server := Some (log_post (p_token_uri s) params sv)\<rparr>
           in case post (p_token_uri s) params of
                Inl e \<Rightarrow> (Inl e, s1)
              | Inr ret_params \<Rightarrow>
                  (let s2 = s1\<lparr>access_token := dict_get ret_params ''access_token''\<rparr>
                   in if access_token s2 = PyNone then (Inl NoAccessToken, s2)
                      else
                        (let r1 = AList.delete ''access_token'' ret_params;
                             r2 = (if dict_has r1 ''expires_in''
                                   then AList.delete ''expires_in'' r1 else r1);
                             s3 = s2\<lparr>refresh_token := dict_get r2 ''refresh_token''\<rparr>;
                             r3 = (if refresh_token s3 \<noteq> PyNone
                                   then AList.delete ''refresh_token'' r2 else r2)
                         in (Inr r3, s3)))))"

text \<open>
  The \<^verbatim>\<open>try\<close> block of \<^verbatim>\<open>handle_callback\<close>:
  \<^verbatim>\<open>dict(urlparse.parse_qsl(urlparse.urlsplit(url)[3]))\<close>.
\<close>

definition callback_args :: "urllib \<Rightarrow> pyval \<Rightarrow> error + string dict" where
  "callback_args lib url =
     (case urlsplit lib url of
        Inl e \<Rightarrow> Inl e
      | Inr parts \<Rightarrow>
          (case parse_qsl lib (query parts) of
             Inl e \<Rightarrow> Inl e
           | Inr pairs \<Rightarrow> Inr (dict_of pairs)))"

definition handle_callback ::
  "urllib \<Rightarrow> post_as_form \<Rightarrow> pyval \<Rightarrow> FHIROAuth2Auth \<Rightarrow> (error + pyval dict) \<times> FHIROAuth2Auth" where
  "handle_callback lib post url s =
     (if url = PyNone then (Inl NoCallbackURL, s)
      else case callback_args lib url of
        Inl e \<Rightarrow> (Inl (InvalidCallbackURL e), s)
      | Inr args \<Rightarrow>
          (case extract_oauth_error args of
             Some err \<Rightarrow> (Inl (OAuthError err), s)
           | None \<Rightarrow>
               (case map_of args ''state'' of
                  None \<Rightarrow> (Inl (InvalidState PyNone (auth_state s)), s)
                | Some stt \<Rightarrow>
                    if auth_state s \<noteq> PyStr stt
                    then (Inl (InvalidState (PyStr stt) (auth_state s)), s)
                    else
                      (case map_of args ''code'' of
                         None \<Rightarrow> (Inl (NoCode (map fst args)), s)
                       | Some code \<Rightarrow>
                           p_request_access_token post (p_code_exchange_params code s) s))))"

subsection \<open>Reauthorization\<close>

definition p_reauthorize_params :: "FHIROAuth2Auth \<Rightarrow> error + pyval dict" where
  "p_reauthorize_params s =
     (if refresh_token s = PyNone then Inl NoRefreshToken
      else Inr [(''client_id'', app_id s),
                (''grant_type'', PyStr ''refresh_token''),
                (''refresh_token'', refresh_token s)])"

text \<open>The result \<open>Inr None\<close> is the \<^verbatim>\<open>return None\<close> of a strategy without refresh token.\<close>

definition reauthorize ::
  "post_as_form \<Rightarrow> FHIROAuth2Auth \<Rightarrow> (error + pyval dict option) \<times> FHIROAuth2Auth" where
  "reauthorize post s =
     (if refresh_token s = PyNone then (Inr None, s)
      else case p_reauthorize_params s of
        Inl e \<Rightarrow> (Inl e, s)
      | Inr reauth \<Rightarrow>
          (case p_request_access_token post reauth s of
             (Inl e, s') \<Rightarrow> (Inl e, s')
           | (Inr ctx, s') \<Rightarrow> (Inr (Some ctx), s')))"

section \<open>Strategies and their lifecycle\<close>

text \<open>
  The two registered classes. \<open>strategy_ready\<close>, \<open>strategy_can_sign_headers\<close> and
  \<open>holds_token\<close> dispatch on the class; the base class has no \<^verbatim>\<open>access_token\<close> field.
\<close>

datatype strategy = NoAuth FHIRAuth | OAuth2 FHIROAuth2Auth

fun strategy_ready :: "strategy \<Rightarrow> bool" where
  "strategy_ready (NoAuth a) = FHIRAuth_ready a"
| "strategy_ready (OAuth2 s) = ready s"

fun strategy_can_sign_headers :: "strategy \<Rightarrow> bool" where
  "strategy_can_sign_headers (NoAuth a) = FHIRAuth_can_sign_headers a"
| "strategy_can_sign_headers (OAuth2 s) = can_sign_headers s"

fun holds_token :: "strategy \<Rightarrow> bool" where
  "holds_token (NoAuth a) = False"
| "holds_token (OAuth2 s) = (access_token s \<noteq> PyNone)"

text \<open>
  The OAuth2 strategies that the operations can produce: a constructed one, and every one
  an operation leaves behind, whether the operation returned or raised. The getters
  \<^verbatim>\<open>ready\<close> and \<^verbatim>\<open>state\<close> and the methods \<^verbatim>\<open>can_sign_headers\<close> and \<^verbatim>\<open>signed_headers\<close>
  write no field of the strategy.
\<close>

inductive reachable :: "FHIROAuth2Auth \<Rightarrow> bool" where
  r_init: "init sv st = Inr s \<Longrightarrow> reachable s"
| r_from_state: "reachable s \<Longrightarrow> from_state st s = Inr s' \<Longrightarrow> reachable s'"
| r_reset: "reachable s \<Longrightarrow> reachable (reset s)"
| r_authorize_uri: "reachable s \<Longrightarrow> reachable (snd (authorize_uri lib uuid4 s))"
| r_handle_callback: "reachable s \<Longrightarrow> reachable (snd (handle_callback lib post url s))"
| r_reauthorize: "reachable s \<Longrightarrow> reachable (snd (reauthorize post s))"

section \<open>A small URL library to run the model\<close>

text \<open>
  The operations take the URL library as a parameter and the theorems hold for every
  library. To run an operation on a concrete URL, \<open>plain_urllib\<close> is a reduced stand-in
  for Python 3's \<^verbatim>\<open>urllib.parse\<close>: \<open>plain_urlsplit\<close> cuts the fragment off at the first
  \<^verbatim>\<open>#\<close> and the query at the first \<^verbatim>\<open>?\<close> and leaves scheme and authority in the path;
  for \<^verbatim>\<open>None\<close> it yields five empty \<^verbatim>\<open>bytes\<close> components, as Python 3 does.
  \<open>plain_urlunsplit\<close> refuses to join \<^verbatim>\<open>str\<close> and non-empty \<^verbatim>\<open>bytes\<close> components
  ("Cannot mix str and non-str arguments"). \<open>plain_urlencode\<close> percent-encodes keys and
  values as \<^verbatim>\<open>quote_plus\<close> does (letters, digits and \<^verbatim>\<open>_.-~\<close> are kept, a space becomes
  \<^verbatim>\<open>+\<close>, every other byte becomes \<^verbatim>\<open>%XX\<close>), and \<open>plain_parse_qsl\<close> decodes names and
  values (\<^verbatim>\<open>+\<close> to a space, then \<^verbatim>\<open>%XX\<close> to the byte); a string is its UTF-8 bytes, and
  the pairs of a \<^verbatim>\<open>bytes\<close> query are given as text.
\<close>

definition is_unreserved :: "char \<Rightarrow> bool" where
  "is_unreserved c =
     (let n = (of_char c :: nat)
      in (65 \<le> n \<and> n \<le> 90) \<or> (97 \<le> n \<and> n \<le> 122) \<or> (48 \<le> n \<and> n \<le> 57)
         \<or> c = CHR ''_'' \<or> c = CHR ''.'' \<or> c = CHR ''-'' \<or> c = CHR ''~'')"

definition hex_digit :: "nat \<Rightarrow> char" where
  "hex_digit n = ''0123456789ABCDEF'' ! n"

definition quote_char :: "char \<Rightarrow> string" where
  "quote_char c =
     (if is_unreserved c then [c]
      else if c = CHR '' '' then ''+''
      else [CHR ''%'', hex_digit ((of_char c :: nat) div 16), hex_digit ((of_char c :: nat) mod 16)])"

definition quote_plus :: "string \<Rightarrow> string" where
  "quote_plus x = concat (map quote_char x)"

definition hex_val :: "char \<Rightarrow> nat option" where
  "hex_val c =
     (let n = (of_char c :: nat)
      in if 48 \<le> n \<and> n \<le> 57 then Some (n - 48)
         else if 65 \<le> n \<and> n \<le> 70 then Some (n - 55)
         else if 97 \<le> n \<and> n \<le> 102 then Some (n - 87)
         else None)"

fun unquote :: "string \<Rightarrow> string" where
  "unquote (c # h # l # rest) =
     (if c = CHR ''%'' then
        (case (hex_val h, hex_val l) of
           (Some a, Some b) \<Rightarrow> char_of (16 * a + b) # unquote rest
         | _ \<Rightarrow> c # unquote (h # l # rest))
      else c # unquote (h # l # rest))"
| "unquote xs = xs"

definition unquote_plus :: "string \<Rightarrow> string" where
  "unquote_plus x = unquote (map (\<lambda>c. if c = CHR ''+'' then CHR '' '' else c) x)"

fun partition_at :: "char \<Rightarrow> string \<Rightarrow> string \<times> string" where
  "partition_at c [] = ([], [])"
| "partition_at c (x # xs) =
     (if x = c then ([], xs) else (case partition_at c xs of (a, b) \<Rightarrow> (x # a, b)))"

fun split_on :: "char \<Rightarrow> string \<Rightarrow> string list" where
  "split_on c [] = [[]]"
| "split_on c (x # xs) =
     (if x = c then [] # split_on c xs
      else (case split_on c xs of [] \<Rightarrow> [[x]] | w # ws \<Rightarrow> (x # w) # ws))"

fun digits :: "nat \<Rightarrow> string" where
  "digits n = (if n < 10 then [char_of (48 + n)] else digits (n div 10) @ [char_of (48 + n mod 10)])"

fun py_str :: "pyval \<Rightarrow> string" where
  "py_str PyNone = ''None''"
| "py_str (PyStr x) = x"
| "py_str (PyInt n) = (if n < 0 then CHR ''-'' # digits (nat (- n)) else digits (nat n))"

fun is_str :: "urlpart \<Rightarrow> bool" where
  "is_str (UStr x) = True"
| "is_str (UBytes x) = False"

fun part_text :: "urlpart \<Rightarrow> string" where
  "part_text (UStr x) = x"
| "part_text (UBytes x) = x"

definition plain_urlsplit :: "pyval \<Rightarrow> error + split_result" where
  "plain_urlsplit url =
     (case url of
        PyStr u \<Rightarrow>
          (case partition_at CHR ''#'' u of (rest, frag) \<Rightarrow>
             (case partition_at CHR ''?'' rest of (p, q) \<Rightarrow>
                Inr \<lparr>scheme = UStr [], netloc = UStr [], path = UStr p, query = UStr q,
                     fragment = UStr frag\<rparr>))
      | PyNone \<Rightarrow>
          Inr \<lparr>scheme = UBytes [], netloc = UBytes [], path = UBytes [], query = UBytes [],
               fragment = UBytes []\<rparr>
      | PyInt n \<Rightarrow>
          (if n = 0
           then Inr \<lparr>scheme = UBytes [], netloc = UBytes [], path = UBytes [], query = UBytes [],
                     fragment = UBytes []\<rparr>
           else Inl (Raised ''AttributeError'')))"

definition plain_parse_qsl :: "urlpart \<Rightarrow> error + (string \<times> string) list" where
  "plain_parse_qsl q =
     Inr (map (\<lambda>nv. case partition_at CHR ''='' nv of (n, v) \<Rightarrow> (unquote_plus n, unquote_plus v))
            (filter (\<lambda>nv. CHR ''='' \<in> set nv \<and> snd (partition_at CHR ''='' nv) \<noteq> [])
               (split_on CHR ''&'' (part_text q))))"

fun group_values :: "(string \<times> string) list \<Rightarrow> qvalue dict \<Rightarrow> qvalue dict" where
  "group_values [] d = d"
| "group_values ((k, v) # kvs) d =
     group_values kvs
       (case map_of d k of
          Some (Many vs) \<Rightarrow> AList.update k (Many (vs @ [v])) d
        | _ \<Rightarrow> AList.update k (Many [v]) d)"

definition plain_parse_qs :: "urlpart \<Rightarrow> error + qvalue dict" where
  "plain_parse_qs q =
     (case plain_parse_qsl q of Inl e \<Rightarrow> Inl e | Inr pairs \<Rightarrow> Inr (group_values pairs []))"

fun join_with :: "char \<Rightarrow> string list \<Rightarrow> string" where
  "join_with c [] = []"
| "join_with c [x] = x"
| "join_with c (x # y # ys) = x @ c # join_with c (y # ys)"

definition plain_urlencode :: "qvalue dict \<Rightarrow> error + string" where
  "plain_urlencode d =
     Inr (join_with CHR ''&''
            (concat (map (\<lambda>(k, v). case v of
                                     One x \<Rightarrow> [quote_plus k @ ''='' @ quote_plus (py_str x)]
                                   | Many xs \<Rightarrow> map (\<lambda>x. quote_plus k @ ''='' @ quote_plus x) xs)
                      d)))"

definition plain_urlunsplit :: "split_result \<Rightarrow> error + string" where
  "plain_urlunsplit parts =
     (if list_ex (\<lambda>c. part_len c > 0 \<and> is_str c \<noteq> is_str (scheme parts))
           [netloc parts, path parts, query parts, fragment parts]
      then Inl (Raised ''TypeError'')
      else Inr (part_text (path parts)
                @ (if part_len (query parts) > 0 then CHR ''?'' # part_text (query parts) else [])
                @ (if part_len (fragment parts) > 0 then CHR ''#'' # part_text (fragment parts) else [])))"

definition plain_urllib :: urllib where
  "plain_urllib = \<lparr>urlsplit = plain_urlsplit, parse_qs = plain_parse_qs,
                    parse_qsl = plain_parse_qsl, urlencode = plain_urlencode,
                    urlunsplit = plain_urlunsplit\<rparr>"

text \<open>
  A server that has received no call yet, and a strategy constructed on it from a
  configuration snapshot.
\<close>

definition fresh_server :: server where
  "fresh_server = \<lparr>saves = 0, posts = []\<rparr>"

definition config :: "pyval dict" where
  "config = [(''app_id'', PyStr ''my_app''),
             (''scope'', PyStr ''launch''),
             (''authorize_uri'', PyStr ''https://ehr/auth?aud=x''),
             (''redirect_uri'', PyStr ''https://app/cb''),
             (''token_uri'', PyStr ''https://ehr/token'')]"

definition configured :: FHIROAuth2Auth where
  "configured = \<lparr>server = Some fresh_server, app_id = PyStr ''my_app'', scope = PyStr ''launch'',
                 p_registration_uri = PyNone, p_authorize_uri = PyStr ''https://ehr/auth?aud=x'',
                 p_redirect_uri = PyStr ''https://app/cb'', p_token_uri = PyStr ''https://ehr/token'',
                 auth_state = PyNone, access_token = PyNone, refresh_token = PyNone\<rparr>"

text \<open>
  A token endpoint that answers every request with an access token, a refresh token and
  a lifetime; the strategy after its first read of \<^verbatim>\<open>authorize_uri\<close> (the nonce drawn is
  \<^verbatim>\<open>01234567\<close>); and the strategy after the callback that carries this nonce.
\<close>

definition token_response :: post_as_form where
  "token_response uri params =
     Inr [(''access_token'', PyStr ''t1''), (''refresh_token'', PyStr ''r1''),
          (''expires_in'', PyStr ''3600'')]"

definition pending :: FHIROAuth2Auth where
  "pending = configured\<lparr>server := Some (should_save_state fresh_server),
                         auth_state := PyStr ''01234567''\<rparr>"

definition authorized :: FHIROAuth2Auth where
  "authorized =
     pending\<lparr>server := Some (log_post (PyStr ''https://ehr/token'')
                               [(''client_id'', PyStr ''my_app''), (''code'', PyStr ''abc''),
                                (''grant_type'', PyStr ''authorization_code''),
                                (''redirect_uri'', PyStr ''https://app/cb''),
                                (''state'', PyStr ''01234567'')]
                               (should_save_state fresh_server)),
             access_token := PyStr ''t1'', refresh_token := PyStr ''r1''\<rparr>"

text \<open>
  The configuration fields are written by \<^verbatim>\<open>from_state\<close> only, which stores a value
  only if it is truthy: in every strategy the operations produce, each of them is
  \<^verbatim>\<open>None\<close> or truthy.
\<close>

definition none_or_truthy :: "pyval \<Rightarrow> bool" where
  "none_or_truthy v = (v = PyNone \<or> truthy v)"

definition settled :: "FHIROAuth2Auth \<Rightarrow> bool" where
  "settled s = (none_or_truthy (app_id s) \<and> none_or_truthy (scope s)
     \<and> none_or_truthy (p_registration_uri s) \<and> none_or_truthy (p_authorize_uri s)
     \<and> none_or_truthy (p_redirect_uri s) \<and> none_or_truthy (p_token_uri s))"

text \<open>
  Other answers of the token endpoint: an error document without token, a token that is the
  empty string, a JSON \<^verbatim>\<open>null\<close> token, and a new access token without refresh token. The
  parameters of the refresh request of \<open>authorized\<close>, and a strategy constructed without
  state.
\<close>

definition error_response :: post_as_form where
  "error_response uri params = Inr [(''error'', PyStr ''invalid_grant'')]"

definition empty_token_response :: post_as_form where
  "empty_token_response uri params = Inr [(''access_token'', PyStr [])]"

definition null_token_response :: post_as_form where
  "null_token_response uri params = Inr [(''access_token'', PyNone)]"

definition access_only_response :: post_as_form where
  "access_only_response uri params = Inr [(''access_token'', PyStr ''t2'')]"

definition refresh_request :: "pyval dict" where
  "refresh_request = [(''client_id'', PyStr ''my_app''), (''grant_type'', PyStr ''refresh_token''),
                      (''refresh_token'', PyStr ''r1'')]"

definition unconfigured :: FHIROAuth2Auth where
  "unconfigured = \<lparr>server = Some fresh_server, app_id = PyNone, scope = PyNone,
                   p_registration_uri = PyNone, p_authorize_uri = PyNone, p_redirect_uri = PyNone,
                   p_token_uri = PyNone, auth_state = PyNone, access_token = PyNone,
                   refresh_token = PyNone\<rparr>"

text \<open>A strategy of the base class, and a snapshot that holds two of the nine keys.\<close>

definition base_strategy :: FHIRAuth where
  "base_strategy = \<lparr>server = Some fresh_server, app_id = PyNone\<rparr>"

definition partial_snapshot :: "pyval dict" where
  "partial_snapshot = [(''scope'', PyStr ''user''), (''access_token'', PyStr [])]"

section \<open>Running the model\<close>

lemma init_config: "init (Some fresh_server) (Some config) = Inr configured"
  by (simp add: init_def from_state_def FHIRAuth_from_state_def config_def configured_def
        py_or_def dict_get_def)

lemma split_auth:
  "plain_urlsplit (PyStr ''https://ehr/auth?aud=x'') =
     Inr \<lparr>scheme = UStr [], netloc = UStr [], path = UStr ''https://ehr/auth'',
          query = UStr ''aud=x'', fragment = UStr []\<rparr>"
  by (simp add: plain_urlsplit_def)

lemma qsl_aud: "plain_parse_qsl (UStr ''aud=x'') = Inr [(''aud'', ''x'')]"
  by (simp add: plain_parse_qsl_def unquote_plus_def)

lemma authorize_configured:
  "authorize_uri plain_urllib ''01234567-89ab-4cde-8f01-23456789abcd'' configured =
     (Inr ''https://ehr/auth?aud=x&client_id=my_app&response_type=code&scope=launch&state=01234567&redirect_uri=https%3A%2F%2Fapp%2Fcb'',
      pending)"
  by (simp add: authorize_uri_def p_authorize_params_def configured_def pending_def Let_def
        plain_urllib_def split_auth merge_query_def plain_parse_qs_def qsl_aud dict_update_def
        plain_urlencode_def plain_urlunsplit_def quote_plus_def quote_char_def is_unreserved_def
        hex_digit_def)

lemma split_cb:
  "plain_urlsplit (PyStr ''https://app/cb?code=abc&state=01234567'') =
     Inr \<lparr>scheme = UStr [], netloc = UStr [], path = UStr ''https://app/cb'',
          query = UStr ''code=abc&state=01234567'', fragment = UStr []\<rparr>"
  by (simp add: plain_urlsplit_def)

lemma qsl_cb:
  "plain_parse_qsl (UStr ''code=abc&state=01234567'') =
     Inr [(''code'', ''abc''), (''state'', ''01234567'')]"
  by (simp add: plain_parse_qsl_def unquote_plus_def)

lemma args_cb:
  "callback_args plain_urllib (PyStr ''https://app/cb?code=abc&state=01234567'') =
     Inr [(''code'', ''abc''), (''state'', ''01234567'')]"
  by (simp add: callback_args_def plain_urllib_def split_cb qsl_cb dict_of_def dict_update_def)

lemma callback_pending:
  "handle_callback plain_urllib token_response
     (PyStr ''https://app/cb?code=abc&state=01234567'') pending = (Inr [], authorized)"
  by (simp add: handle_callback_def args_cb extract_oauth_error_def p_code_exchange_params_def
        p_request_access_token_def token_response_def pending_def authorized_def configured_def
        Let_def dict_get_def dict_has_def)

lemma args_forged:
  "callback_args plain_urllib (PyStr ''https://app/cb?code=abc&state=XXX'') =
     Inr [(''code'', ''abc''), (''state'', ''XXX'')]"
  by (simp add: callback_args_def plain_urllib_def plain_urlsplit_def plain_parse_qsl_def
        unquote_plus_def dict_of_def dict_update_def)

section \<open>Reset\<close>

lemma state_config:
  "AList.update ''token_uri'' f (AList.update ''redirect_uri'' e (AList.update ''authorize_uri'' d
     (AList.update ''registration_uri'' c (AList.update ''scope'' b [(''app_id'', a)])))) =
   [(''app_id'', a), (''scope'', b), (''registration_uri'', c), (''authorize_uri'', d),
    (''redirect_uri'', e), (''token_uri'', f)]"
  by simp

lemma state_eq:
  "state s =
     [(''app_id'', app_id s), (''scope'', scope s), (''registration_uri'', p_registration_uri s),
      (''authorize_uri'', p_authorize_uri s), (''redirect_uri'', p_redirect_uri s),
      (''token_uri'', p_token_uri s)]
     @ (if auth_state s \<noteq> PyNone then [(''auth_state'', auth_state s)] else [])
     @ (if access_token s \<noteq> PyNone then [(''access_token'', access_token s)] else [])
     @ (if refresh_token s \<noteq> PyNone then [(''refresh_token'', refresh_token s)] else [])"
  unfolding state_def FHIRAuth_state_def Let_def state_config
  by (cases "auth_state s = PyNone"; cases "access_token s = PyNone";
      cases "refresh_token s = PyNone") simp_all

lemma reset_fields:
  "auth_state (reset s) = PyNone" "access_token (reset s) = PyNone"
  "refresh_token (reset s) = refresh_token s" "app_id (reset s) = app_id s"
  "scope (reset s) = scope s" "p_registration_uri (reset s) = p_registration_uri s"
  "p_authorize_uri (reset s) = p_authorize_uri s" "p_redirect_uri (reset s) = p_redirect_uri s"
  "p_token_uri (reset s) = p_token_uri s" "server (reset s) = server s"
  by (simp_all add: reset_def FHIRAuth_reset_def)

lemma state_reset_eq:
  "state (reset s) = AList.delete ''auth_state'' (AList.delete ''access_token'' (state s))"
  by (cases "auth_state s = PyNone"; cases "access_token s = PyNone";
      cases "refresh_token s = PyNone")
     (simp_all add: state_eq reset_fields)

text \<open>
  Claim C9. \<^verbatim>\<open>reset()\<close> sets \<^verbatim>\<open>access_token\<close> and \<^verbatim>\<open>auth_state\<close> to \<^verbatim>\<open>None\<close>, so that
  \<^verbatim>\<open>ready\<close> is false afterwards, and changes no other field: \<^verbatim>\<open>refresh_token\<close>,
  \<^verbatim>\<open>scope\<close> and the four endpoint fields keep their values. In the exported state this
  shows as the same mapping without the keys \<^verbatim>\<open>auth_state\<close> and \<^verbatim>\<open>access_token\<close>.
\<close>

theorem reset_clears_token_and_nonce_only:
  "reset s = s\<lparr>access_token := PyNone, auth_state := PyNone\<rparr>
   \<and> \<not> ready (reset s)
   \<and> refresh_token (reset s) = refresh_token s
   \<and> scope (reset s) = scope s
   \<and> p_registration_uri (reset s) = p_registration_uri s
   \<and> p_authorize_uri (reset s) = p_authorize_uri s
   \<and> p_redirect_uri (reset s) = p_redirect_uri s
   \<and> p_token_uri (reset s) = p_token_uri s
   \<and> state (reset s) = AList.delete ''auth_state'' (AList.delete ''access_token'' (state s))"
  by (simp add: state_reset_eq reset_fields ready_def)

theorem reset_clears_token_and_nonce_only_witness:
  "ready authorized
   \<and> \<not> ready (reset authorized)
   \<and> refresh_token (reset authorized) = PyStr ''r1''
   \<and> p_token_uri (reset authorized) = PyStr ''https://ehr/token''
   \<and> state authorized =
        [(''app_id'', PyStr ''my_app''), (''scope'', PyStr ''launch''),
         (''registration_uri'', PyNone), (''authorize_uri'', PyStr ''https://ehr/auth?aud=x''),
         (''redirect_uri'', PyStr ''https://app/cb''), (''token_uri'', PyStr ''https://ehr/token''),
         (''auth_state'', PyStr ''01234567''), (''access_token'', PyStr ''t1''),
         (''refresh_token'', PyStr ''r1'')]
   \<and> state (reset authorized) =
        [(''app_id'', PyStr ''my_app''), (''scope'', PyStr ''launch''),
         (''registration_uri'', PyNone), (''authorize_uri'', PyStr ''https://ehr/auth?aud=x''),
         (''redirect_uri'', PyStr ''https://app/cb''), (''token_uri'', PyStr ''https://ehr/token''),
         (''refresh_token'', PyStr ''r1'')]"
proof -
  have st: "state authorized =
        [(''app_id'', PyStr ''my_app''), (''scope'', PyStr ''launch''),
         (''registration_uri'', PyNone), (''authorize_uri'', PyStr ''https://ehr/auth?aud=x''),
         (''redirect_uri'', PyStr ''https://app/cb''), (''token_uri'', PyStr ''https://ehr/token''),
         (''auth_state'', PyStr ''01234567''), (''access_token'', PyStr ''t1''),
         (''refresh_token'', PyStr ''r1'')]"
    by (simp add: state_eq) (simp add: authorized_def pending_def configured_def)
  have rd: "ready authorized"
    by (simp add: ready_def authorized_def)
  have rf: "refresh_token authorized = PyStr ''r1''"
    and tu: "p_token_uri authorized = PyStr ''https://ehr/token''"
    by (simp_all add: authorized_def pending_def configured_def)
  note th = reset_clears_token_and_nonce_only [of authorized]
  have nr: "\<not> ready (reset authorized)"
    and r1: "refresh_token (reset authorized) = refresh_token authorized"
    and t1: "p_token_uri (reset authorized) = p_token_uri authorized"
    and s1: "state (reset authorized) =
               AList.delete ''auth_state'' (AList.delete ''access_token'' (state authorized))"
    using th by blast+
  show ?thesis
    by (simp add: st rd nr r1 t1 s1 rf tu)
qed

section \<open>The callback's state check\<close>

text \<open>
  Claim C1. For a callback URL whose query holds no OAuth2 error indication: if the
  \<^verbatim>\<open>state\<close> parameter is absent or differs from the pending \<^verbatim>\<open>auth_state\<close>,
  \<^verbatim>\<open>handle_callback\<close> raises the invalid-state exception and leaves the strategy as it
  was: \<^verbatim>\<open>access_token\<close> is unchanged and the server's record of \<^verbatim>\<open>post_as_form\<close> calls
  has not grown, whatever the collaborator \<open>post\<close> would have answered.
\<close>

theorem handle_callback_state_mismatch:
  assumes "url \<noteq> PyNone"
    and "callback_args lib url = Inr args"
    and "extract_oauth_error args = None"
    and "map_of args ''state'' = None
         \<or> (\<exists>stt. map_of args ''state'' = Some stt \<and> auth_state s \<noteq> PyStr stt)"
  shows "handle_callback lib post url s =
           (Inl (InvalidState
                   (case map_of args ''state'' of None \<Rightarrow> PyNone | Some stt \<Rightarrow> PyStr stt)
                   (auth_state s)), s)"
  using assms by (auto simp: handle_callback_def)

theorem handle_callback_state_mismatch_witness:
  "PyStr ''https://app/cb?code=abc&state=XXX'' \<noteq> PyNone
   \<and> callback_args plain_urllib (PyStr ''https://app/cb?code=abc&state=XXX'')
       = Inr [(''code'', ''abc''), (''state'', ''XXX'')]
   \<and> extract_oauth_error [(''code'', ''abc''), (''state'', ''XXX'')] = None
   \<and> map_of [(''code'', ''abc''), (''state'', ''XXX'')] ''state'' = Some ''XXX''
   \<and> auth_state pending \<noteq> PyStr ''XXX''
   \<and> handle_callback plain_urllib token_response
        (PyStr ''https://app/cb?code=abc&state=XXX'') pending
       = (Inl (InvalidState (PyStr ''XXX'') (PyStr ''01234567'')), pending)"
proof -
  have e: "extract_oauth_error [(''code'', ''abc''), (''state'', ''XXX'')] = None"
    by (simp add: extract_oauth_error_def)
  have m: "map_of [(''code'', ''abc''), (''state'', ''XXX'')] ''state'' = Some ''XXX''"
    by simp
  have a: "auth_state pending = PyStr ''01234567''"
    by (simp add: pending_def)
  have d: "map_of [(''code'', ''abc''), (''state'', ''XXX'')] ''state'' = None
           \<or> (\<exists>stt. map_of [(''code'', ''abc''), (''state'', ''XXX'')] ''state'' = Some stt
                 \<and> auth_state pending \<noteq> PyStr stt)"
    by (simp add: a)
  show ?thesis
    using handle_callback_state_mismatch
            [of "PyStr ''https://app/cb?code=abc&state=XXX''" plain_urllib
                "[(''code'', ''abc''), (''state'', ''XXX'')]" pending token_response,
             OF _ args_forged e d]
    by (simp add: args_forged e a)
qed

section \<open>The token exchange\<close>

lemma request_no_token:
  assumes "server s = Some sv" and "post (p_token_uri s) params = Inr ret"
    and "dict_get ret ''access_token'' = PyNone"
  shows "p_request_access_token post params s =
           (Inl NoAccessToken,
            s\<lparr>server := Some (log_post (p_token_uri s) params sv), access_token := PyNone\<rparr>)"
  using assms by (simp add: p_request_access_token_def Let_def)

lemma delete_absent: "\<not> dict_has d k \<Longrightarrow> AList.delete k d = d"
  by (simp add: dict_has_def map_of_eq_None_iff)

lemma request_token:
  assumes "server s = Some sv" and "post (p_token_uri s) params = Inr ret"
    and "dict_get ret ''access_token'' \<noteq> PyNone"
  shows "p_request_access_token post params s =
           (Inr ((if dict_get ret ''refresh_token'' \<noteq> PyNone
                  then AList.delete ''refresh_token'' else id)
                   (AList.delete ''expires_in'' (AList.delete ''access_token'' ret))),
            s\<lparr>server := Some (log_post (p_token_uri s) params sv),
              access_token := dict_get ret ''access_token'',
              refresh_token := dict_get ret ''refresh_token''\<rparr>)"
proof -
  let ?r1 = "AList.delete ''access_token'' ret"
  let ?r2 = "AList.delete ''expires_in'' ?r1"
  have r2: "(if dict_has ?r1 ''expires_in'' then AList.delete ''expires_in'' ?r1 else ?r1) = ?r2"
    by (simp add: delete_absent)
  have g: "dict_get ?r2 ''refresh_token'' = dict_get ret ''refresh_token''"
    by (simp add: dict_get_def)
  show ?thesis
    using assms by (simp add: p_request_access_token_def Let_def r2 g)
qed

lemma ready_iff: "ready s = truthy (access_token s)"
  by (simp add: ready_def)

lemma can_sign_iff: "can_sign_headers s = (access_token s \<noteq> PyNone)"
  by (simp add: can_sign_headers_def)

lemma authorized_fields:
  "server authorized =
     Some (log_post (PyStr ''https://ehr/token'')
             [(''client_id'', PyStr ''my_app''), (''code'', PyStr ''abc''),
              (''grant_type'', PyStr ''authorization_code''),
              (''redirect_uri'', PyStr ''https://app/cb''), (''state'', PyStr ''01234567'')]
             (should_save_state fresh_server))"
  "app_id authorized = PyStr ''my_app''" "scope authorized = PyStr ''launch''"
  "p_registration_uri authorized = PyNone"
  "p_authorize_uri authorized = PyStr ''https://ehr/auth?aud=x''"
  "p_redirect_uri authorized = PyStr ''https://app/cb''"
  "p_token_uri authorized = PyStr ''https://ehr/token''"
  "auth_state authorized = PyStr ''01234567''"
  "access_token authorized = PyStr ''t1''" "refresh_token authorized = PyStr ''r1''"
  by (simp_all add: authorized_def pending_def configured_def)

lemma reauthorize_authorized:
  "reauthorize post authorized =
     (case p_request_access_token post refresh_request authorized of
        (Inl e, s') \<Rightarrow> (Inl e, s')
      | (Inr ctx, s') \<Rightarrow> (Inr (Some ctx), s'))"
  by (simp add: reauthorize_def p_reauthorize_params_def authorized_fields refresh_request_def)

text \<open>
  Claim C2 as stated fails. The strategy \<open>authorized\<close> holds the access token \<^verbatim>\<open>t1\<close>; its
  refresh request is answered without \<^verbatim>\<open>access_token\<close>; the exchange raises the
  no-access-token exception, and the stored access token is \<^verbatim>\<open>None\<close> afterwards:
  \<^verbatim>\<open>self.access_token = ret_params.get('access_token')\<close> runs before the test.
\<close>

theorem failed_exchange_overwrites_access_token:
  "\<not> dict_has [(''error'', PyStr ''invalid_grant'')] ''access_token''
   \<and> fst (reauthorize error_response authorized) = Inl NoAccessToken
   \<and> access_token authorized = PyStr ''t1''
   \<and> access_token (snd (reauthorize error_response authorized)) = PyNone
   \<and> \<not> (access_token (snd (reauthorize error_response authorized)) = access_token authorized)"
  by (simp add: reauthorize_authorized
        request_no_token [where ret = "[(''error'', PyStr ''invalid_grant'')]"]
        authorized_fields error_response_def dict_get_def dict_has_def)

text \<open>
  Claim C2, amended. For every token exchange (the code exchange and the refresh both run
  \<^verbatim>\<open>_request_access_token\<close>) whose response mapping lacks the key \<^verbatim>\<open>access_token\<close>:
  the exchange raises the no-access-token exception, the stored \<^verbatim>\<open>refresh_token\<close> and
  every other field but \<^verbatim>\<open>access_token\<close> keep their values, the server has received
  this one \<^verbatim>\<open>post_as_form\<close> call, and the stored \<^verbatim>\<open>access_token\<close> is \<^verbatim>\<open>None\<close>.
\<close>

theorem failed_exchange_keeps_refresh_token:
  assumes "server s = Some sv"
    and "post (p_token_uri s) params = Inr ret"
    and "\<not> dict_has ret ''access_token''"
  shows "p_request_access_token post params s =
           (Inl NoAccessToken,
            s\<lparr>server := Some (log_post (p_token_uri s) params sv), access_token := PyNone\<rparr>)
         \<and> refresh_token (snd (p_request_access_token post params s)) = refresh_token s
         \<and> access_token (snd (p_request_access_token post params s)) = PyNone"
proof -
  have "dict_get ret ''access_token'' = PyNone"
    using assms(3) by (simp add: dict_get_def dict_has_def)
  then show ?thesis
    using assms(1,2) by (simp add: request_no_token)
qed

theorem failed_exchange_keeps_refresh_token_witness:
  "server authorized =
     Some (log_post (PyStr ''https://ehr/token'')
             [(''client_id'', PyStr ''my_app''), (''code'', PyStr ''abc''),
              (''grant_type'', PyStr ''authorization_code''),
              (''redirect_uri'', PyStr ''https://app/cb''), (''state'', PyStr ''01234567'')]
             (should_save_state fresh_server))
   \<and> error_response (p_token_uri authorized) refresh_request = Inr [(''error'', PyStr ''invalid_grant'')]
   \<and> \<not> dict_has [(''error'', PyStr ''invalid_grant'')] ''access_token''
   \<and> fst (p_request_access_token error_response refresh_request authorized) = Inl NoAccessToken
   \<and> refresh_token (snd (p_request_access_token error_response refresh_request authorized)) = PyStr ''r1''
   \<and> access_token (snd (p_request_access_token error_response refresh_request authorized)) = PyNone"
proof -
  have h2: "error_response (p_token_uri authorized) refresh_request
              = Inr [(''error'', PyStr ''invalid_grant'')]"
    by (simp add: error_response_def)
  have h3: "\<not> dict_has [(''error'', PyStr ''invalid_grant'')] ''access_token''"
    by (simp add: dict_has_def)
  show ?thesis
    using failed_exchange_keeps_refresh_token
            [where s = authorized and post = error_response and params = refresh_request,
             OF authorized_fields(1) h2 h3]
    by (simp add: authorized_fields h3 error_response_def)
qed

lemma pending_fields:
  "server pending = Some (should_save_state fresh_server)"
  "app_id pending = PyStr ''my_app''" "scope pending = PyStr ''launch''"
  "p_registration_uri pending = PyNone"
  "p_authorize_uri pending = PyStr ''https://ehr/auth?aud=x''"
  "p_redirect_uri pending = PyStr ''https://app/cb''"
  "p_token_uri pending = PyStr ''https://ehr/token''"
  "auth_state pending = PyStr ''01234567''"
  "access_token pending = PyNone" "refresh_token pending = PyNone"
  by (simp_all add: pending_def configured_def)

text \<open>
  Claim C3 as stated fails. The refresh of \<open>authorized\<close> is answered with an
  \<^verbatim>\<open>access_token\<close> that is the empty string: the exchange succeeds, the empty string is
  stored, and \<^verbatim>\<open>ready\<close> is false afterwards (\<^verbatim>\<open>ready\<close> tests the truth value of the
  token). Answered with an \<^verbatim>\<open>access_token\<close> key that holds \<^verbatim>\<open>None\<close>, the exchange raises
  the no-access-token exception.
\<close>

theorem present_token_need_not_make_ready:
  "dict_has [(''access_token'', PyStr [])] ''access_token''
   \<and> fst (reauthorize empty_token_response authorized) = Inr (Some [])
   \<and> access_token (snd (reauthorize empty_token_response authorized)) = PyStr []
   \<and> \<not> ready (snd (reauthorize empty_token_response authorized))
   \<and> dict_has [(''access_token'', PyNone)] ''access_token''
   \<and> fst (reauthorize null_token_response authorized) = Inl NoAccessToken"
  by (simp add: reauthorize_authorized
        request_token [where ret = "[(''access_token'', PyStr [])]"]
        request_no_token [where ret = "[(''access_token'', PyNone)]"]
        authorized_fields empty_token_response_def null_token_response_def dict_get_def
        dict_has_def ready_iff)

text \<open>
  Claim C3, amended. For every token exchange whose response mapping holds an
  \<^verbatim>\<open>access_token\<close> that is not \<^verbatim>\<open>None\<close>: the strategy stores that value as its
  \<^verbatim>\<open>access_token\<close>, and \<^verbatim>\<open>ready\<close> is true afterwards exactly if the value is truthy (a
  non-empty string); a \<^verbatim>\<open>refresh_token\<close> of the response that is not \<^verbatim>\<open>None\<close> is stored
  as \<^verbatim>\<open>refresh_token\<close>; the keys \<^verbatim>\<open>access_token\<close> and \<^verbatim>\<open>expires_in\<close>, and
  \<^verbatim>\<open>refresh_token\<close> when its value is not \<^verbatim>\<open>None\<close>, are removed from the mapping; every
  other entry is returned as launch context; the pending \<^verbatim>\<open>auth_state\<close> is not cleared.
  (What the stored \<^verbatim>\<open>refresh_token\<close> becomes when the response holds none is the matter
  of claim C4 and is not stated here.)
\<close>

theorem exchange_stores_token_and_returns_context:
  assumes "server s = Some sv"
    and "post (p_token_uri s) params = Inr ret"
    and "dict_get ret ''access_token'' \<noteq> PyNone"
  shows "\<exists>ctx s'. p_request_access_token post params s = (Inr ctx, s')
           \<and> access_token s' = dict_get ret ''access_token''
           \<and> ready s' = truthy (dict_get ret ''access_token'')
           \<and> (dict_get ret ''refresh_token'' \<noteq> PyNone
                 \<longrightarrow> refresh_token s' = dict_get ret ''refresh_token'')
           \<and> auth_state s' = auth_state s
           \<and> ctx = (if dict_get ret ''refresh_token'' \<noteq> PyNone
                     then AList.delete ''refresh_token'' else id)
                      (AList.delete ''expires_in'' (AList.delete ''access_token'' ret))
           \<and> \<not> dict_has ctx ''access_token''
           \<and> \<not> dict_has ctx ''expires_in''
           \<and> (dict_get ret ''refresh_token'' \<noteq> PyNone \<longrightarrow> \<not> dict_has ctx ''refresh_token'')
           \<and> (\<forall>k. k \<notin> {''access_token'', ''expires_in'', ''refresh_token''}
                  \<longrightarrow> map_of ctx k = map_of ret k)"
  by (simp add: request_token [where post = post and params = params and s = s, OF assms]
        ready_iff dict_has_def AList.delete_conv')

theorem exchange_stores_token_and_returns_context_witness:
  "server pending = Some (should_save_state fresh_server)
   \<and> token_response (p_token_uri pending) (p_code_exchange_params ''abc'' pending)
       = Inr [(''access_token'', PyStr ''t1''), (''refresh_token'', PyStr ''r1''),
              (''expires_in'', PyStr ''3600'')]
   \<and> dict_get [(''access_token'', PyStr ''t1''), (''refresh_token'', PyStr ''r1''),
                (''expires_in'', PyStr ''3600'')] ''access_token'' \<noteq> PyNone
   \<and> (\<exists>s'. p_request_access_token token_response (p_code_exchange_params ''abc'' pending) pending
              = (Inr [], s')
           \<and> access_token s' = PyStr ''t1'' \<and> ready s' \<and> refresh_token s' = PyStr ''r1''
           \<and> auth_state s' = PyStr ''01234567'')"
proof -
  let ?ret = "[(''access_token'', PyStr ''t1''), (''refresh_token'', PyStr ''r1''),
               (''expires_in'', PyStr ''3600'')]"
  have h2: "token_response (p_token_uri pending) (p_code_exchange_params ''abc'' pending) = Inr ?ret"
    by (simp add: token_response_def)
  have h3: "dict_get ?ret ''access_token'' \<noteq> PyNone"
    by (simp add: dict_get_def)
  have g: "dict_get ?ret ''access_token'' = PyStr ''t1''"
    "dict_get ?ret ''refresh_token'' = PyStr ''r1''"
    by (simp_all add: dict_get_def)
  from exchange_stores_token_and_returns_context
         [where s = pending and post = token_response
            and params = "p_code_exchange_params ''abc'' pending", OF pending_fields(1) h2 h3]
  obtain ctx s' where
    r: "p_request_access_token token_response (p_code_exchange_params ''abc'' pending) pending
          = (Inr ctx, s')"
    and a: "access_token s' = dict_get ?ret ''access_token''"
    and b: "ready s' = truthy (dict_get ?ret ''access_token'')"
    and c: "dict_get ?ret ''refresh_token'' \<noteq> PyNone
            \<longrightarrow> refresh_token s' = dict_get ?ret ''refresh_token''"
    and d: "auth_state s' = auth_state pending"
    and e: "ctx = (if dict_get ?ret ''refresh_token'' \<noteq> PyNone
                   then AList.delete ''refresh_token'' else id)
                    (AList.delete ''expires_in'' (AList.delete ''access_token'' ?ret))"
    by blast
  have "ctx = []"
    by (simp add: e g)
  then show ?thesis
    using r a b c d by (simp add: g pending_fields token_response_def)
qed

text \<open>
  Claim C4. The claim is that a successful exchange whose response holds an access token
  and no \<^verbatim>\<open>refresh_token\<close> leaves the held refresh token as it was. The code does not: the
  strategy \<open>authorized\<close> holds the refresh token \<^verbatim>\<open>r1\<close>; its refresh, answered with an
  access token and no \<^verbatim>\<open>refresh_token\<close>, succeeds and leaves \<^verbatim>\<open>refresh_token\<close> at
  \<^verbatim>\<open>None\<close>, because \<^verbatim>\<open>self.refresh_token = ret_params.get('refresh_token')\<close> is
  unconditional and the test for \<^verbatim>\<open>None\<close> that follows guards only the \<^verbatim>\<open>del\<close>. The next
  \<^verbatim>\<open>reauthorize()\<close> then returns \<^verbatim>\<open>None\<close> without calling the server. The import path
  keeps a held token when the mapping holds none
  (\<^verbatim>\<open>state.get('refresh_token') or self.refresh_token\<close>).
\<close>

theorem exchange_without_refresh_token_drops_it:
  "dict_get [(''access_token'', PyStr ''t2'')] ''access_token'' = PyStr ''t2''
   \<and> \<not> dict_has [(''access_token'', PyStr ''t2'')] ''refresh_token''
   \<and> fst (reauthorize access_only_response authorized) = Inr (Some [])
   \<and> refresh_token authorized = PyStr ''r1''
   \<and> refresh_token (snd (reauthorize access_only_response authorized)) = PyNone
   \<and> \<not> (refresh_token (snd (reauthorize access_only_response authorized))
          = refresh_token authorized)
   \<and> reauthorize access_only_response (snd (reauthorize access_only_response authorized))
       = (Inr None, snd (reauthorize access_only_response authorized))"
proof -
  have r: "reauthorize access_only_response authorized =
             (Inr (Some []),
              authorized\<lparr>server := Some (log_post (PyStr ''https://ehr/token'') refresh_request
                                          (the (server authorized))),
                         access_token := PyStr ''t2'', refresh_token := PyNone\<rparr>)"
    by (simp add: reauthorize_authorized
          request_token [where ret = "[(''access_token'', PyStr ''t2'')]"]
          authorized_fields access_only_response_def dict_get_def)
  show ?thesis
    unfolding r by (simp add: authorized_fields dict_get_def dict_has_def reauthorize_def)
qed

section \<open>Readiness\<close>

text \<open>
  Claim C5 as stated fails. A strategy of the base class reports \<^verbatim>\<open>ready\<close> and cannot sign
  headers, and it holds no token. The OAuth2 strategy \<open>authorized\<close>, after a refresh
  answered with the empty string as access token, holds a token (it is not \<^verbatim>\<open>None\<close>)
  and can sign headers, and is not \<^verbatim>\<open>ready\<close>.
\<close>

theorem ready_is_not_can_sign_headers:
  "strategy_ready (NoAuth base_strategy)
   \<and> \<not> strategy_can_sign_headers (NoAuth base_strategy)
   \<and> \<not> holds_token (NoAuth base_strategy)
   \<and> holds_token (OAuth2 (snd (reauthorize empty_token_response authorized)))
   \<and> strategy_can_sign_headers (OAuth2 (snd (reauthorize empty_token_response authorized)))
   \<and> \<not> strategy_ready (OAuth2 (snd (reauthorize empty_token_response authorized)))"
  by (simp add: reauthorize_authorized
        request_token [where ret = "[(''access_token'', PyStr [])]"]
        authorized_fields empty_token_response_def dict_get_def ready_iff can_sign_iff
        FHIRAuth_ready_def FHIRAuth_can_sign_headers_def)

text \<open>
  Claim C5, amended. For every strategy, \<^verbatim>\<open>can_sign_headers()\<close> is true exactly when an
  access token is held (\<^verbatim>\<open>access_token\<close> is not \<^verbatim>\<open>None\<close>; the base class holds none). For
  every OAuth2 strategy \<^verbatim>\<open>ready\<close> implies \<^verbatim>\<open>can_sign_headers()\<close>, and whenever the
  access token is \<^verbatim>\<open>None\<close> or truthy, \<^verbatim>\<open>ready\<close> is true exactly when a token is held and
  \<^verbatim>\<open>can_sign_headers()\<close> returns the same boolean. For every strategy of the base class
  \<^verbatim>\<open>ready\<close> is true and \<^verbatim>\<open>can_sign_headers()\<close> is false.
\<close>

theorem ready_and_can_sign_headers:
  "strategy_can_sign_headers st = holds_token st
   \<and> (strategy_ready (OAuth2 s) \<longrightarrow> strategy_can_sign_headers (OAuth2 s))
   \<and> (access_token s = PyNone \<or> truthy (access_token s) \<longrightarrow>
        strategy_ready (OAuth2 s) = holds_token (OAuth2 s)
        \<and> strategy_can_sign_headers (OAuth2 s) = strategy_ready (OAuth2 s))
   \<and> strategy_ready (NoAuth a) \<and> \<not> strategy_can_sign_headers (NoAuth a)"
  by (cases st) (auto simp: ready_iff can_sign_iff FHIRAuth_ready_def FHIRAuth_can_sign_headers_def)

theorem ready_and_can_sign_headers_witness:
  "truthy (access_token authorized)
   \<and> strategy_ready (OAuth2 authorized) \<and> holds_token (OAuth2 authorized)
   \<and> strategy_can_sign_headers (OAuth2 authorized)
   \<and> access_token unconfigured = PyNone
   \<and> \<not> strategy_ready (OAuth2 unconfigured) \<and> \<not> holds_token (OAuth2 unconfigured)
   \<and> \<not> strategy_can_sign_headers (OAuth2 unconfigured)
   \<and> strategy_ready (NoAuth base_strategy) \<and> \<not> strategy_can_sign_headers (NoAuth base_strategy)"
proof -
  have t: "truthy (access_token authorized)"
    by (simp add: authorized_fields)
  have n: "access_token unconfigured = PyNone"
    by (simp add: unconfigured_def)
  show ?thesis
    using ready_and_can_sign_headers [of "OAuth2 authorized" authorized base_strategy]
      ready_and_can_sign_headers [of "OAuth2 unconfigured" unconfigured base_strategy]
    by (simp add: authorized_fields n)
qed

section \<open>State import\<close>

lemma from_state_nonempty:
  "st \<noteq> [] \<Longrightarrow> from_state st s =
     Inr (s\<lparr>app_id := py_or (dict_get st ''app_id'') (app_id s),
            scope := py_or (dict_get st ''scope'') (scope s),
            p_registration_uri := py_or (dict_get st ''registration_uri'') (p_registration_uri s),
            p_authorize_uri := py_or (dict_get st ''authorize_uri'') (p_authorize_uri s),
            p_redirect_uri := py_or (dict_get st ''redirect_uri'') (p_redirect_uri s),
            p_token_uri := py_or (dict_get st ''token_uri'') (p_token_uri s),
            auth_state := py_or (dict_get st ''auth_state'') (auth_state s),
            access_token := py_or (dict_get st ''access_token'') (access_token s),
            refresh_token := py_or (dict_get st ''refresh_token'') (refresh_token s)\<rparr>)"
  by (simp add: from_state_def FHIRAuth_from_state_def)

lemma from_state_empty: "from_state [] s = Inl AssertionError"
  by (simp add: from_state_def FHIRAuth_from_state_def)

text \<open>
  Claim C6 as stated fails. \<^verbatim>\<open>from_state\<close> starts with \<^verbatim>\<open>assert state\<close>, and the empty
  mapping is falsy: importing it raises AssertionError instead of returning.
\<close>

theorem from_state_rejects_empty_mapping:
  "from_state [] authorized = Inl AssertionError"
  by (simp add: from_state_def FHIRAuth_from_state_def)

text \<open>
  Claim C6, amended. For every non-empty state mapping (a partial one included),
  \<^verbatim>\<open>from_state\<close> returns and leaves each field whose key is absent from the mapping or
  falsy in it at its existing value; the server reference is not touched. For the empty
  mapping \<^verbatim>\<open>from_state\<close> raises AssertionError, with no field written.
\<close>

theorem from_state_keeps_absent_fields:
  "(st = [] \<longrightarrow> from_state st s = Inl AssertionError)
   \<and> (st \<noteq> [] \<longrightarrow>
        (\<exists>s'. from_state st s = Inr s'
           \<and> server s' = server s
           \<and> (\<not> truthy (dict_get st ''app_id'') \<longrightarrow> app_id s' = app_id s)
           \<and> (\<not> truthy (dict_get st ''scope'') \<longrightarrow> scope s' = scope s)
           \<and> (\<not> truthy (dict_get st ''registration_uri'')
                 \<longrightarrow> p_registration_uri s' = p_registration_uri s)
           \<and> (\<not> truthy (dict_get st ''authorize_uri'') \<longrightarrow> p_authorize_uri s' = p_authorize_uri s)
           \<and> (\<not> truthy (dict_get st ''redirect_uri'') \<longrightarrow> p_redirect_uri s' = p_redirect_uri s)
           \<and> (\<not> truthy (dict_get st ''token_uri'') \<longrightarrow> p_token_uri s' = p_token_uri s)
           \<and> (\<not> truthy (dict_get st ''auth_state'') \<longrightarrow> auth_state s' = auth_state s)
           \<and> (\<not> truthy (dict_get st ''access_token'') \<longrightarrow> access_token s' = access_token s)
           \<and> (\<not> truthy (dict_get st ''refresh_token'')
                 \<longrightarrow> refresh_token s' = refresh_token s)))"
  by (simp add: from_state_empty from_state_nonempty py_or_def)

theorem from_state_keeps_absent_fields_witness:
  "partial_snapshot \<noteq> []
   \<and> \<not> truthy (dict_get partial_snapshot ''access_token'')
   \<and> \<not> truthy (dict_get partial_snapshot ''refresh_token'')
   \<and> \<not> truthy (dict_get partial_snapshot ''token_uri'')
   \<and> (\<exists>s'. from_state partial_snapshot authorized = Inr s'
          \<and> access_token s' = PyStr ''t1''
          \<and> refresh_token s' = PyStr ''r1''
          \<and> p_token_uri s' = PyStr ''https://ehr/token'')
   \<and> from_state [] authorized = Inl AssertionError"
proof -
  have ne: "partial_snapshot \<noteq> []"
    by (simp add: partial_snapshot_def)
  have g: "\<not> truthy (dict_get partial_snapshot ''access_token'')"
    "\<not> truthy (dict_get partial_snapshot ''refresh_token'')"
    "\<not> truthy (dict_get partial_snapshot ''token_uri'')"
    by (simp_all add: partial_snapshot_def dict_get_def)
  show ?thesis
    using from_state_keeps_absent_fields [of partial_snapshot authorized]
      from_state_keeps_absent_fields [of "[]" authorized]
    by (auto simp: ne g authorized_fields)
qed

section \<open>The authorize URL\<close>

lemma authorize_params_pending:
  "auth_state s \<noteq> PyNone \<Longrightarrow>
   p_authorize_params u s =
     (Inr [(''client_id'', app_id s), (''response_type'', PyStr ''code''), (''scope'', scope s),
           (''state'', auth_state s), (''redirect_uri'', p_redirect_uri s)], s)"
  by (simp add: p_authorize_params_def)

lemma authorize_params_mint:
  "auth_state s = PyNone \<Longrightarrow> server s = Some sv \<Longrightarrow>
   p_authorize_params u s =
     (Inr [(''client_id'', app_id s), (''response_type'', PyStr ''code''), (''scope'', scope s),
           (''state'', PyStr (take 8 u)), (''redirect_uri'', p_redirect_uri s)],
      s\<lparr>auth_state := PyStr (take 8 u), server := Some (should_save_state sv)\<rparr>)"
  by (simp add: p_authorize_params_def Let_def)

lemma authorize_uri_state:
  "snd (authorize_uri lib u s) = snd (p_authorize_params u s)"
  by (simp add: authorize_uri_def split: prod.splits sum.splits)

lemma authorize_uri_pending:
  "auth_state s \<noteq> PyNone \<Longrightarrow> authorize_uri lib u s = (fst (authorize_uri lib u' s), s)"
  by (simp add: authorize_uri_def authorize_params_pending split: sum.splits)






lemma join_with_nonempty: "x \<in> set xs \<Longrightarrow> x \<noteq> [] \<Longrightarrow> join_with c xs \<noteq> []"
  by (induction c xs rule: join_with.induct) auto

lemma plain_urlencode_nonempty:
  assumes "(k, One v) \<in> set d" and "plain_urlencode d = Inr q"
  shows "q \<noteq> []"
proof -
  let ?f = "\<lambda>(k, v). case v of One x \<Rightarrow> [quote_plus k @ ''='' @ quote_plus (py_str x)]
                               | Many xs \<Rightarrow> map (\<lambda>x. quote_plus k @ ''='' @ quote_plus x) xs"
  have "quote_plus k @ ''='' @ quote_plus (py_str v) \<in> set (concat (map ?f d))"
    using assms(1) by force
  then have "join_with CHR ''&'' (concat (map ?f d)) \<noteq> []"
    by (rule join_with_nonempty) simp
  then show ?thesis
    using assms(2) by (auto simp: plain_urlencode_def)
qed

text \<open>
  Claim C10. For an OAuth2 strategy with a server collaborator, no pending nonce and an
  authorize endpoint that was never configured (\<^verbatim>\<open>_authorize_uri\<close> is \<^verbatim>\<open>None\<close>): reading
  \<^verbatim>\<open>authorize_uri\<close> raises, and the strategy it leaves behind holds the freshly minted
  nonce and a server that has received one more \<^verbatim>\<open>should_save_state\<close> call. The exception
  is the URL library's. The library is a parameter, so its behaviour on \<^verbatim>\<open>None\<close> is the
  last hypothesis: either \<^verbatim>\<open>urlsplit(None)\<close> raises (Python 2), or it yields components
  with an empty query and a scheme that is not a \<^verbatim>\<open>str\<close>, \<^verbatim>\<open>urlencode\<close> yields a non-empty
  string for a mapping with a scalar value, and \<^verbatim>\<open>urlunsplit\<close> raises on a non-empty
  \<^verbatim>\<open>str\<close> query next to a scheme that is not a \<^verbatim>\<open>str\<close> (Python 3).
\<close>

theorem authorize_uri_unconfigured_raises_after_minting:
  assumes "server s = Some sv" and "auth_state s = PyNone" and "p_authorize_uri s = PyNone"
    and "(\<exists>e. urlsplit lib PyNone = Inl e)
         \<or> (\<exists>parts. urlsplit lib PyNone = Inr parts
               \<and> part_len (query parts) = 0 \<and> \<not> is_str (scheme parts)
               \<and> (\<forall>d q. (\<exists>k v. (k, One v) \<in> set d) \<longrightarrow> urlencode lib d = Inr q \<longrightarrow> q \<noteq> [])
               \<and> (\<forall>p. \<not> is_str (scheme p) \<and> is_str (query p) \<and> part_len (query p) > 0
                      \<longrightarrow> (\<exists>e. urlunsplit lib p = Inl e)))"
  shows "\<exists>e. authorize_uri lib u s =
           (Inl e, s\<lparr>auth_state := PyStr (take 8 u), server := Some (should_save_state sv)\<rparr>)"
proof -
  let ?s1 = "s\<lparr>auth_state := PyStr (take 8 u), server := Some (should_save_state sv)\<rparr>"
  let ?ps = "[(''client_id'', app_id s), (''response_type'', PyStr ''code''), (''scope'', scope s),
              (''state'', PyStr (take 8 u)), (''redirect_uri'', p_redirect_uri s)]"
  let ?d = "map (\<lambda>(k, v). (k, One v)) ?ps"
  have p1: "p_authorize_params u s = (Inr ?ps, ?s1)"
    using assms(2) assms(1) by (rule authorize_params_mint)
  from assms(4) show ?thesis
  proof
    assume "\<exists>e. urlsplit lib PyNone = Inl e"
    then show ?thesis
      using assms(3) by (auto simp: authorize_uri_def p1)
  next
    assume "\<exists>parts. urlsplit lib PyNone = Inr parts
               \<and> part_len (query parts) = 0 \<and> \<not> is_str (scheme parts)
               \<and> (\<forall>d q. (\<exists>k v. (k, One v) \<in> set d) \<longrightarrow> urlencode lib d = Inr q \<longrightarrow> q \<noteq> [])
               \<and> (\<forall>p. \<not> is_str (scheme p) \<and> is_str (query p) \<and> part_len (query p) > 0
                      \<longrightarrow> (\<exists>e. urlunsplit lib p = Inl e))"
    then obtain parts where sp: "urlsplit lib PyNone = Inr parts"
      and q0: "part_len (query parts) = 0" and bts: "\<not> is_str (scheme parts)"
      and enc: "\<And>d q. \<exists>k v. (k, One v) \<in> set d \<Longrightarrow> urlencode lib d = Inr q \<Longrightarrow> q \<noteq> []"
      and un: "\<And>p. \<not> is_str (scheme p) \<Longrightarrow> is_str (query p) \<Longrightarrow> part_len (query p) > 0
                      \<Longrightarrow> \<exists>e. urlunsplit lib p = Inl e"
      by blast
    have mq: "merge_query lib parts ?ps = Inr ?d"
      using q0 by (simp add: merge_query_def)
    show ?thesis
    proof (cases "urlencode lib ?d")
      case (Inl e)
      then show ?thesis
        using assms(3) sp mq by (simp add: authorize_uri_def p1)
    next
      case (Inr q)
      have "\<exists>k v. (k, One v) \<in> set ?d"
        by (intro exI [of _ "''client_id''"] exI [of _ "app_id s"]) simp
      then have "q \<noteq> []" using enc Inr by blast
      then obtain e where "urlunsplit lib (parts\<lparr>query := UStr q\<rparr>) = Inl e"
        using un [of "parts\<lparr>query := UStr q\<rparr>"] by (auto simp: bts)
      then show ?thesis
        using assms(3) sp mq Inr by (simp add: authorize_uri_def p1)
    qed
  qed
qed

theorem authorize_uri_unconfigured_raises_after_minting_witness:
  "server unconfigured = Some fresh_server
   \<and> auth_state unconfigured = PyNone
   \<and> p_authorize_uri unconfigured = PyNone
   \<and> urlsplit plain_urllib PyNone
       = Inr \<lparr>scheme = UBytes [], netloc = UBytes [], path = UBytes [], query = UBytes [],
              fragment = UBytes []\<rparr>
   \<and> \<not> (\<exists>d k v. (k, One v) \<in> set d \<and> urlencode plain_urllib d = Inr [])
   \<and> \<not> (\<exists>p r. \<not> is_str (scheme p) \<and> is_str (query p) \<and> part_len (query p) > 0
             \<and> urlunsplit plain_urllib p = Inr r)
   \<and> (\<exists>e. authorize_uri plain_urllib ''01234567-89ab-4cde-8f01-23456789abcd'' unconfigured =
          (Inl e, unconfigured\<lparr>auth_state := PyStr ''01234567'',
                                server := Some \<lparr>saves = 1, posts = []\<rparr>\<rparr>))"
proof -
  have h1: "server unconfigured = Some fresh_server"
    and h2: "auth_state unconfigured = PyNone"
    and h3: "p_authorize_uri unconfigured = PyNone"
    by (simp_all add: unconfigured_def)
  have sp: "urlsplit plain_urllib PyNone
       = Inr \<lparr>scheme = UBytes [], netloc = UBytes [], path = UBytes [], query = UBytes [],
              fragment = UBytes []\<rparr>"
    by (simp add: plain_urllib_def plain_urlsplit_def)
  have enc: "\<forall>d q. (\<exists>k v. (k, One v) \<in> set d) \<longrightarrow> urlencode plain_urllib d = Inr q \<longrightarrow> q \<noteq> []"
    using plain_urlencode_nonempty by (auto simp: plain_urllib_def)
  have un: "\<forall>p. \<not> is_str (scheme p) \<and> is_str (query p) \<and> part_len (query p) > 0
          \<longrightarrow> (\<exists>e. urlunsplit plain_urllib p = Inl e)"
    by (simp add: plain_urllib_def plain_urlunsplit_def)
  have h4: "(\<exists>e. urlsplit plain_urllib PyNone = Inl e)
         \<or> (\<exists>parts. urlsplit plain_urllib PyNone = Inr parts
               \<and> part_len (query parts) = 0 \<and> \<not> is_str (scheme parts)
               \<and> (\<forall>d q. (\<exists>k v. (k, One v) \<in> set d) \<longrightarrow> urlencode plain_urllib d = Inr q \<longrightarrow> q \<noteq> [])
               \<and> (\<forall>p. \<not> is_str (scheme p) \<and> is_str (query p) \<and> part_len (query p) > 0
                      \<longrightarrow> (\<exists>e. urlunsplit plain_urllib p = Inl e)))"
    using enc un by (simp add: sp)
  have t: "take 8 ''01234567-89ab-4cde-8f01-23456789abcd'' = ''01234567''"
    by simp
  have f: "should_save_state fresh_server = \<lparr>saves = 1, posts = []\<rparr>"
    by (simp add: should_save_state_def fresh_server_def)
  have enc': "\<not> (\<exists>d k v. (k, One v) \<in> set d \<and> urlencode plain_urllib d = Inr [])"
    using enc by blast
  have un': "\<not> (\<exists>p r. \<not> is_str (scheme p) \<and> is_str (query p) \<and> part_len (query p) > 0
             \<and> urlunsplit plain_urllib p = Inr r)"
    using un by fastforce
  show ?thesis
    using authorize_uri_unconfigured_raises_after_minting
            [of unconfigured fresh_server plain_urllib "''01234567-89ab-4cde-8f01-23456789abcd''", OF h1 h2 h3 h4]
      h1 h2 h3 sp enc' un'
    unfolding t f by blast
qed

section \<open>Export and import\<close>

lemma none_or_truthy_py_or: "none_or_truthy b \<Longrightarrow> none_or_truthy (py_or a b)"
  by (simp add: none_or_truthy_def py_or_def)

lemma py_or_None: "none_or_truthy a \<Longrightarrow> py_or a PyNone = a"
  by (auto simp: none_or_truthy_def py_or_def)

lemma settled_from_state: "settled s \<Longrightarrow> from_state st s = Inr s' \<Longrightarrow> settled s'"
  by (cases "st = []")
     (auto simp: from_state_empty from_state_nonempty settled_def none_or_truthy_py_or)

lemma settled_init:
  assumes "init sv st = Inr s"
  shows "settled s"
proof -
  let ?s0 = "\<lparr>server = sv, app_id = PyNone, scope = PyNone, p_registration_uri = PyNone,
               p_authorize_uri = PyNone, p_redirect_uri = PyNone, p_token_uri = PyNone,
               auth_state = PyNone, access_token = PyNone, refresh_token = PyNone\<rparr>"
  have s0: "settled ?s0"
    by (simp add: settled_def none_or_truthy_def)
  from assms have "s = ?s0 \<or> (\<exists>m. from_state m ?s0 = Inr s)"
    by (auto simp: init_def Let_def split: if_splits option.splits)
  then show ?thesis
    using s0 settled_from_state by auto
qed

lemma settled_cong:
  "app_id s' = app_id s \<Longrightarrow> scope s' = scope s
   \<Longrightarrow> p_registration_uri s' = p_registration_uri s
   \<Longrightarrow> p_authorize_uri s' = p_authorize_uri s \<Longrightarrow> p_redirect_uri s' = p_redirect_uri s
   \<Longrightarrow> p_token_uri s' = p_token_uri s \<Longrightarrow> settled s' = settled s"
  by (simp add: settled_def)

lemma settled_reset: "settled (reset s) = settled s"
  by (rule settled_cong) (simp_all add: reset_fields)

lemma settled_authorize_params: "settled (snd (p_authorize_params u s)) = settled s"
  by (rule settled_cong) (simp_all add: p_authorize_params_def Let_def split: option.splits)

lemma settled_request: "settled (snd (p_request_access_token post params s)) = settled s"
  by (rule settled_cong)
     (simp_all add: p_request_access_token_def Let_def split: option.splits sum.splits)

lemma settled_handle_callback: "settled (snd (handle_callback lib post url s)) = settled s"
  by (simp add: handle_callback_def settled_request split: sum.splits option.splits)

lemma reauthorize_state:
  "snd (reauthorize post s) =
     (if refresh_token s = PyNone then s
      else snd (p_request_access_token post
                  [(''client_id'', app_id s), (''grant_type'', PyStr ''refresh_token''),
                   (''refresh_token'', refresh_token s)] s))"
  by (simp add: reauthorize_def p_reauthorize_params_def split: sum.splits prod.splits)

lemma settled_reauthorize: "settled (snd (reauthorize post s)) = settled s"
  by (simp add: reauthorize_state settled_request)

lemma reachable_settled: "reachable s \<Longrightarrow> settled s"
proof (induction rule: reachable.induct)
  case (r_init sv st s)
  then show ?case by (rule settled_init)
next
  case (r_from_state s st s')
  then show ?case using settled_from_state by blast
next
  case (r_reset s)
  then show ?case by (simp add: settled_reset)
next
  case (r_authorize_uri s lib uuid4)
  then show ?case by (simp add: authorize_uri_state settled_authorize_params)
next
  case (r_handle_callback s lib post url)
  then show ?case by (simp add: settled_handle_callback)
next
  case (r_reauthorize s post)
  then show ?case by (simp add: settled_reauthorize)
qed

lemma state_nonempty: "state s \<noteq> []"
  by (simp add: state_eq)

lemma state_get:
  "dict_get (state s) ''app_id'' = app_id s"
  "dict_get (state s) ''scope'' = scope s"
  "dict_get (state s) ''registration_uri'' = p_registration_uri s"
  "dict_get (state s) ''authorize_uri'' = p_authorize_uri s"
  "dict_get (state s) ''redirect_uri'' = p_redirect_uri s"
  "dict_get (state s) ''token_uri'' = p_token_uri s"
  "dict_get (state s) ''auth_state'' = auth_state s"
  "dict_get (state s) ''access_token'' = access_token s"
  "dict_get (state s) ''refresh_token'' = refresh_token s"
  by (simp_all add: state_eq dict_get_def)

lemma reachable_authorized: "reachable authorized"
proof -
  have "reachable configured"
    using init_config by (rule r_init)
  then have "reachable (snd (authorize_uri plain_urllib ''01234567-89ab-4cde-8f01-23456789abcd'' configured))"
    by (rule r_authorize_uri)
  then have "reachable pending"
    by (simp add: authorize_configured)
  then have "reachable (snd (handle_callback plain_urllib token_response
                               (PyStr ''https://app/cb?code=abc&state=01234567'') pending))"
    by (rule r_handle_callback)
  then show ?thesis
    by (simp add: callback_pending)
qed

text \<open>
  Claim C8. For every OAuth2 strategy that the operations can produce (one that holds an
  access token included), a fresh strategy constructed on a server from its exported state
  is equivalent: it has the same \<^verbatim>\<open>ready\<close> value, the same \<^verbatim>\<open>scope\<close> and the same four
  endpoint fields (and the same \<^verbatim>\<open>app_id\<close>).
\<close>

theorem export_import_round_trip:
  assumes "reachable s"
  shows "\<exists>s'. init (Some sv) (Some (state s)) = Inr s'
           \<and> ready s' = ready s
           \<and> scope s' = scope s
           \<and> p_registration_uri s' = p_registration_uri s
           \<and> p_authorize_uri s' = p_authorize_uri s
           \<and> p_redirect_uri s' = p_redirect_uri s
           \<and> p_token_uri s' = p_token_uri s
           \<and> app_id s' = app_id s"
proof -
  have "settled s"
    using assms by (rule reachable_settled)
  then show ?thesis
    by (simp add: init_def from_state_nonempty state_nonempty state_get settled_def py_or_None
          ready_iff)
       (simp add: py_or_def)
qed

theorem export_import_round_trip_witness:
  "reachable authorized
   \<and> ready authorized
   \<and> (\<exists>s'. init (Some fresh_server) (Some (state authorized)) = Inr s'
          \<and> ready s'
          \<and> scope s' = PyStr ''launch''
          \<and> p_registration_uri s' = PyNone
          \<and> p_authorize_uri s' = PyStr ''https://ehr/auth?aud=x''
          \<and> p_redirect_uri s' = PyStr ''https://app/cb''
          \<and> p_token_uri s' = PyStr ''https://ehr/token''
          \<and> app_id s' = PyStr ''my_app'')"
proof -
  have r: "ready authorized"
    by (simp add: ready_iff authorized_fields)
  show ?thesis
    using export_import_round_trip [OF reachable_authorized, of fresh_server]
    by (simp add: reachable_authorized r authorized_fields)
qed

end
